theory Spec2Isabelle
  imports Main
begin

section \<open>Virtual Fitting Room: the orchestration workflow and its backend adapter\<close>

text \<open>
  A shallow embedding of \<^verbatim>\<open>src/services/geminiService.ts\<close> (the adapter in front of the
  generative backend), of the handlers of \<^verbatim>\<open>src/App.tsx\<close> (the workflow) and of the
  types of \<^verbatim>\<open>types.ts\<close>.

  Conventions of the embedding.
  \<^item> A JavaScript string is a \<open>string\<close>; the characters are the code units below 256.
    A string is truthy exactly when it is not empty; \<open>undefined\<close> is \<open>None\<close>.
  \<^item> A thrown \<^verbatim>\<open>new Error(msg)\<close> is the value \<open>Inl (Error msg)\<close> of a sum type; the
    source has no error classes, only messages.
  \<^item> An \<^verbatim>\<open>async\<close> function is the function from its arguments to its settled outcome:
    \<open>Inr v\<close> when the promise resolves with \<open>v\<close>, \<open>Inl e\<close> when it rejects with \<open>e\<close>.
  \<^item> The constructor of the client (\<^verbatim>\<open>new GoogleGenAI\<close>), the generative backend
    (\<^verbatim>\<open>ai.models.generateContent\<close>) and \<^verbatim>\<open>JSON.parse\<close> are not code of the repository:
    they are parameters, collected in the record \<open>Env\<close>.
\<close>

subsection \<open>Errors and data URLs\<close>

datatype error = Error (message: string)

record InlineData =
  mimeType :: string
  data :: string

text \<open>
  \<^verbatim>\<open>dataUrl.match(/^data:(.+);base64,(.+)$/)\<close>. The pattern has no flags: \<^verbatim>\<open>^\<close> and
  \<^verbatim>\<open>$\<close> are the two ends of the input, and \<^verbatim>\<open>.\<close> is any character that is not a line
  terminator (line feed and carriage return, among the characters of the model).
  Both groups are greedy. The matcher below follows the backtracking order of the
  pattern: the first group first tries to take one more character, and only when the
  rest of the input cannot be matched that way does it stop where it is.
\<close>

definition is_line_terminator :: "char \<Rightarrow> bool" where
  "is_line_terminator c \<longleftrightarrow> c = CHR 0x0A \<or> c = CHR 0x0D"

text \<open>The tail \<^verbatim>\<open>;base64,(.+)$\<close> of the pattern, at the current position.\<close>

definition match_payload :: "string \<Rightarrow> string option" where
  "match_payload s =
     (if take 8 s = '';base64,'' \<and> drop 8 s \<noteq> [] \<and> \<not> list_ex is_line_terminator (drop 8 s)
      then Some (drop 8 s) else None)"

text \<open>The group \<^verbatim>\<open>(.+)\<close> after the scheme; \<open>m\<close> is what the group holds so far.\<close>

fun match_mime :: "string \<Rightarrow> string \<Rightarrow> (string \<times> string) option" where
  "match_mime m [] = None"
| "match_mime m (c # cs) =
     (case (if is_line_terminator c then None else match_mime (m @ [c]) cs) of
        Some r \<Rightarrow> Some r
      | None \<Rightarrow>
          (if m = [] then None
           else (case match_payload (c # cs) of
                   None \<Rightarrow> None
                 | Some d \<Rightarrow> Some (m, d))))"

definition match_data_url :: "string \<Rightarrow> (string \<times> string) option" where
  "match_data_url dataUrl =
     (if take 5 dataUrl = ''data:'' then match_mime [] (drop 5 dataUrl) else None)"

definition parseBase64 :: "string \<Rightarrow> error + InlineData" where
  "parseBase64 dataUrl =
     (case match_data_url dataUrl of
        None \<Rightarrow> Inl (Error ''Invalid base64 string provided.'')
      | Some (m, d) \<Rightarrow> Inr \<lparr>mimeType = m, data = d\<rparr>)"

text \<open>
  The shape \<^verbatim>\<open>data:<mime>;base64,<payload>\<close> in the words of the specification: the
  scheme, a MIME type, the separator \<^verbatim>\<open>;base64,\<close> and a payload, the two of them not
  empty. (A string without the scheme or without the separator is not of this shape,
  whatever is allowed for the MIME type and the payload.)
\<close>

definition spec_data_url_shape :: "string \<Rightarrow> bool" where
  "spec_data_url_shape s \<longleftrightarrow>
     (\<exists>mime payload. mime \<noteq> [] \<and> payload \<noteq> [] \<and> s = ''data:'' @ mime @ '';base64,'' @ payload)"

subsection \<open>The generative backend\<close>

text \<open>
  A response of \<^verbatim>\<open>ai.models.generateContent\<close>, as far as the adapter reads it: the
  candidates with their content parts, and the \<^verbatim>\<open>text\<close> of the response. Every level
  that the source reads with \<^verbatim>\<open>?.\<close> may be absent.
\<close>

record Part =
  inlineData :: "InlineData option"
  part_text :: "string option"

record Content =
  parts :: "Part list option"

record Candidate =
  content :: "Content option"

record GenerateContentResponse =
  candidates :: "Candidate list option"
  response_text :: "string option"

datatype Pose = Pose_original | Pose_degrees int

record Recommendation =
  itemName :: string
  category :: string
  rec_reason :: string
  colorHex :: string

record SafetyCheck =
  valid :: bool
  reason :: "string option"

text \<open>
  The five requests the adapter sends. Model name, prompt and configuration of each are
  fixed by the source up to the values kept here: the parsed images, and for the
  try-on prompt the instructions and the pose, for the product prompt the
  recommendation.
\<close>

datatype Request =
    SafetyRequest InlineData
  | ReviewRequest InlineData InlineData
  | TryOnRequest InlineData InlineData string Pose
  | RecommendationsRequest InlineData
  | ProductImageRequest Recommendation

text \<open>
  What the repository takes from outside. Every function of the adapter starts with
  \<^verbatim>\<open>const ai = new GoogleGenAI({ apiKey: process.env.API_KEY })\<close>; the constructor
  returns a client or throws (\<open>Inl\<close>), and it does so in the same way at every call. On a
  client, \<open>generateContent\<close> (\<^verbatim>\<open>ai.models.generateContent\<close>) answers a request with a
  response or throws. \<^verbatim>\<open>JSON.parse\<close> is used at two result types, the ones the source
  declares for the values it returns (\<^verbatim>\<open>{ valid: boolean; reason?: string }\<close> and
  \<^verbatim>\<open>Recommendation[]\<close>); \<open>None\<close> is its \<^verbatim>\<open>SyntaxError\<close>.
\<close>

record Client =
  generateContent :: "Request \<Rightarrow> error + GenerateContentResponse"

record Env =
  GoogleGenAI :: "error + Client"
  JSON_parse_SafetyCheck :: "string \<Rightarrow> SafetyCheck option"
  JSON_parse_Recommendations :: "string \<Rightarrow> Recommendation list option"

text \<open>Truthiness of an optional string: defined and not empty.\<close>

fun truthy :: "string option \<Rightarrow> bool" where
  "truthy None = False"
| "truthy (Some t) = (t \<noteq> [])"

text \<open>\<^verbatim>\<open>x || d\<close> for an optional string \<open>x\<close>.\<close>

fun or_else :: "string option \<Rightarrow> string \<Rightarrow> string" where
  "or_else None d = d"
| "or_else (Some t) d = (if t \<noteq> [] then t else d)"

text \<open>\<^verbatim>\<open>response.candidates?.[0]?.content?.parts || []\<close>\<close>

definition response_parts :: "GenerateContentResponse \<Rightarrow> Part list" where
  "response_parts response =
     (case candidates response of
        None \<Rightarrow> []
      | Some [] \<Rightarrow> []
      | Some (c # _) \<Rightarrow>
          (case content c of
             None \<Rightarrow> []
           | Some ct \<Rightarrow> (case parts ct of None \<Rightarrow> [] | Some ps \<Rightarrow> ps)))"

text \<open>\<^verbatim>\<open>parts.find(p => p.text)?.text\<close>: the text of the first part with a truthy text.\<close>

fun find_text :: "Part list \<Rightarrow> string option" where
  "find_text [] = None"
| "find_text (p # ps) = (if truthy (part_text p) then part_text p else find_text ps)"

text \<open>
  For the statements about responses: the inline data of the parts that have some, in
  the order of the parts.
\<close>

definition inline_images :: "Part list \<Rightarrow> InlineData list" where
  "inline_images ps = List.map_filter inlineData ps"

subsection \<open>String operations of the adapter\<close>

text \<open>
  \<^verbatim>\<open>text.replace(/<opener>[\s\S]*?```/g, "")\<close> for the two openers of the source,
  \<^verbatim>\<open>```json\<close> and \<^verbatim>\<open>```\<close>. The lazy \<^verbatim>\<open>[\s\S]*?\<close> ends at the first closing fence after the
  opener; \<open>after_fence\<close> returns what follows that fence. A global replace goes on behind
  each match, and keeps a character where no match starts.
\<close>

fun after_fence :: "string \<Rightarrow> string option" where
  "after_fence [] = None"
| "after_fence (c # cs) =
     (if take 3 (c # cs) = ''```'' then Some (drop 3 (c # cs)) else after_fence cs)"

lemma after_fence_length: "after_fence s = Some r \<Longrightarrow> length r < length s"
  by (induction s arbitrary: r) (auto split: if_splits)

function remove_fenced :: "string \<Rightarrow> string \<Rightarrow> string" where
  "remove_fenced opener [] = []"
| "remove_fenced opener (c # cs) =
     (if take (length opener) (c # cs) = opener
      then (case after_fence (drop (length opener) (c # cs)) of
              Some r \<Rightarrow> remove_fenced opener r
            | None \<Rightarrow> c # remove_fenced opener cs)
      else c # remove_fenced opener cs)"
  by pat_completeness auto
termination
proof (relation "measure (\<lambda>(opener, s). length s)")
  fix opener :: string and c :: char and cs r :: string
  assume "after_fence (drop (length opener) (c # cs)) = Some r"
  then have "length r < length (drop (length opener) (c # cs))"
    by (rule after_fence_length)
  then show "((opener, r), (opener, c # cs)) \<in> measure (\<lambda>(opener, s). length s)"
    by simp
qed auto

text \<open>
  \<^verbatim>\<open>trim()\<close> removes white space and line terminators at both ends: among the characters
  of the model, the codes 9 to 13, the space and the no-break space.
\<close>

definition is_space :: "char \<Rightarrow> bool" where
  "is_space c \<longleftrightarrow> c \<in> set [CHR 0x09, CHR 0x0A, CHR 0x0B, CHR 0x0C, CHR 0x0D, CHR 0x20, CHR 0xA0]"

definition trim :: "string \<Rightarrow> string" where
  "trim s = rev (dropWhile is_space (rev (dropWhile is_space s)))"

subsection \<open>The adapter: \<^verbatim>\<open>geminiService.ts\<close>\<close>

text \<open>
  In every function the construction of the client and the calls of \<open>parseBase64\<close> stand
  before the \<^verbatim>\<open>try\<close>, in this order: their error leaves the function as it is, and no
  request is sent.
\<close>

definition validateClothingSafety :: "Env \<Rightarrow> string \<Rightarrow> error + SafetyCheck" where
  "validateClothingSafety env clothingImageBase64 =
     (case GoogleGenAI env of
        Inl e \<Rightarrow> Inl e
      | Inr ai \<Rightarrow>
     (case parseBase64 clothingImageBase64 of
        Inl e \<Rightarrow> Inl e
      | Inr clothingImage \<Rightarrow>
          (case generateContent ai (SafetyRequest clothingImage) of
             Inl e \<Rightarrow> Inl (Error ''Security validation service is currently unavailable.'')
           | Inr response \<Rightarrow>
               (case response_text response of
                  None \<Rightarrow> Inr \<lparr>valid = False, reason = Some ''Unable to verify image safety.''\<rparr>
                | Some t \<Rightarrow>
                    (if t \<noteq> []
                     then (case JSON_parse_SafetyCheck env t of
                             None \<Rightarrow> Inl (Error ''Security validation service is currently unavailable.'')
                           | Some result \<Rightarrow> Inr result)
                     else Inr \<lparr>valid = False, reason = Some ''Unable to verify image safety.''\<rparr>)))))"

definition generateStylistReview :: "Env \<Rightarrow> string \<Rightarrow> string \<Rightarrow> error + string" where
  "generateStylistReview env userImageBase64 clothingImageBase64 =
     (case GoogleGenAI env of
        Inl e \<Rightarrow> Inl e
      | Inr ai \<Rightarrow>
     (case parseBase64 userImageBase64 of
        Inl e \<Rightarrow> Inl e
      | Inr userImage \<Rightarrow>
          (case parseBase64 clothingImageBase64 of
             Inl e \<Rightarrow> Inl e
           | Inr clothingImage \<Rightarrow>
               (case generateContent ai (ReviewRequest userImage clothingImage) of
                  Inl e \<Rightarrow> Inr ''This look is bold and stylish!''
                | Inr response \<Rightarrow>
                    Inr (or_else (response_text response)
                           ''A sophisticated choice that complements your style perfectly.'')))))"

record TryOnResult =
  tryOn_imageUrl :: string

text \<open>The loop over the parts: every part with inline data overwrites \<open>imageUrl\<close>.\<close>

fun tryOn_scan :: "Part list \<Rightarrow> string option \<Rightarrow> string option" where
  "tryOn_scan [] imageUrl = imageUrl"
| "tryOn_scan (part # ps) imageUrl =
     tryOn_scan ps
       (case inlineData part of
          Some d \<Rightarrow> Some (''data:image/png;base64,'' @ data d)
        | None \<Rightarrow> imageUrl)"

text \<open>The body of the \<^verbatim>\<open>try\<close> of \<open>generateTryOn\<close>, after the response has arrived.\<close>

definition tryOn_response :: "GenerateContentResponse \<Rightarrow> error + TryOnResult" where
  "tryOn_response response =
     (let ps = response_parts response;
          no_image = Inl (Error ''The model did not return an image. Please try a different photo or clothing item.'')
      in case tryOn_scan ps None of
           Some imageUrl \<Rightarrow>
             (if imageUrl \<noteq> [] then Inr \<lparr>tryOn_imageUrl = imageUrl\<rparr> else no_image)
         | None \<Rightarrow>
             (case find_text ps of
                None \<Rightarrow> no_image
              | Some textPart \<Rightarrow>
                  (if textPart \<noteq> []
                   then (let cleanFeedback = trim (remove_fenced ''```json'' textPart)
                         in if length cleanFeedback > 0
                            then Inl (Error (''The model could not generate the image. Message: ''
                                             @ [CHR 0x22] @ take 100 cleanFeedback @ ''...'' @ [CHR 0x22]))
                            else no_image)
                   else no_image)))"

text \<open>
  The \<^verbatim>\<open>catch\<close> of \<open>generateTryOn\<close>:
  \<^verbatim>\<open>throw new Error(error.message || "Failed to process virtual try-on.")\<close>.
\<close>

definition tryOn_catch :: "error \<Rightarrow> error" where
  "tryOn_catch e = Error (if message e \<noteq> [] then message e else ''Failed to process virtual try-on.'')"

definition generateTryOn :: "Env \<Rightarrow> string \<Rightarrow> string \<Rightarrow> string \<Rightarrow> Pose \<Rightarrow> error + TryOnResult" where
  "generateTryOn env userImageBase64 clothingImageBase64 instructions pose =
     (case GoogleGenAI env of
        Inl e \<Rightarrow> Inl e
      | Inr ai \<Rightarrow>
     (case parseBase64 userImageBase64 of
        Inl e \<Rightarrow> Inl e
      | Inr userImage \<Rightarrow>
          (case parseBase64 clothingImageBase64 of
             Inl e \<Rightarrow> Inl e
           | Inr clothingImage \<Rightarrow>
               (case generateContent ai (TryOnRequest userImage clothingImage instructions pose) of
                  Inl e \<Rightarrow> Inl (tryOn_catch e)
                | Inr response \<Rightarrow>
                    (case tryOn_response response of
                       Inl e \<Rightarrow> Inl (tryOn_catch e)
                     | Inr r \<Rightarrow> Inr r)))))"

definition generateStyleRecommendations :: "Env \<Rightarrow> string \<Rightarrow> error + Recommendation list" where
  "generateStyleRecommendations env clothingImageBase64 =
     (case GoogleGenAI env of
        Inl e \<Rightarrow> Inl e
      | Inr ai \<Rightarrow>
     (case parseBase64 clothingImageBase64 of
        Inl e \<Rightarrow> Inl e
      | Inr clothingImage \<Rightarrow>
          (case generateContent ai (RecommendationsRequest clothingImage) of
             Inl e \<Rightarrow> Inr []
           | Inr response \<Rightarrow>
               (case response_text response of
                  None \<Rightarrow> Inr []
                | Some t \<Rightarrow>
                    (if t \<noteq> []
                     then (case JSON_parse_Recommendations env t of
                             None \<Rightarrow> Inr []
                           | Some rs \<Rightarrow> Inr rs)
                     else Inr [])))))"

text \<open>The loop of \<open>generateProductImage\<close> returns at the first part with inline data.\<close>

fun product_scan :: "Part list \<Rightarrow> string option" where
  "product_scan [] = None"
| "product_scan (part # ps) =
     (case inlineData part of
        Some d \<Rightarrow> Some (''data:image/png;base64,'' @ data d)
      | None \<Rightarrow> product_scan ps)"

text \<open>The body of the \<^verbatim>\<open>try\<close> of \<open>generateProductImage\<close>, with the errors it throws.\<close>

definition product_try :: "Client \<Rightarrow> Recommendation \<Rightarrow> error + string" where
  "product_try ai recommendation =
     (case generateContent ai (ProductImageRequest recommendation) of
        Inl e \<Rightarrow> Inl e
      | Inr response \<Rightarrow>
          (let ps = response_parts response in
           case product_scan ps of
             Some url \<Rightarrow> Inr url
           | None \<Rightarrow>
               (case find_text ps of
                  None \<Rightarrow> Inl (Error ''No image generated'')
                | Some textPart \<Rightarrow>
                    (if textPart \<noteq> []
                     then (let cleanText = trim (remove_fenced ''```'' textPart)
                           in Inl (Error (''Model returned text: '' @ take 50 cleanText @ ''...'')))
                     else Inl (Error ''No image generated'')))))"

text \<open>
  The \<^verbatim>\<open>catch\<close> around it throws one fixed error, whatever it caught. The client is
  constructed before the \<^verbatim>\<open>try\<close>.
\<close>

definition generateProductImage :: "Env \<Rightarrow> Recommendation \<Rightarrow> error + string" where
  "generateProductImage env recommendation =
     (case GoogleGenAI env of
        Inl e \<Rightarrow> Inl e
      | Inr ai \<Rightarrow>
          (case product_try ai recommendation of
             Inl e \<Rightarrow> Inl (Error ''Failed to visualize the recommended item.'')
           | Inr url \<Rightarrow> Inr url))"

subsection \<open>The workflow state: \<^verbatim>\<open>types.ts\<close> and the state hooks of \<^verbatim>\<open>App.tsx\<close>\<close>

record File =
  name :: string

record ImageFile =
  file_obj :: File
  previewUrl :: string
  base64 :: string

datatype AppStatus = IDLE | PROCESSING | SUCCESS | ERROR

record GenerationResult =
  imageUrl :: "string option"
  feedback :: "string option"
  recommendations :: "Recommendation list option"

text \<open>The nine \<^verbatim>\<open>useState\<close> cells of the component, \<^verbatim>\<open>null\<close> as \<open>None\<close>.\<close>

record App =
  userImage :: "ImageFile option"
  clothingImage :: "ImageFile option"
  clothingModelUrl :: "string option"
  instructions :: string
  rotation :: int
  useCustomRotation :: bool
  status :: AppStatus
  result :: "GenerationResult option"
  error :: "string option"

definition initial :: App where
  "initial =
     \<lparr>userImage = None, clothingImage = None, clothingModelUrl = None, instructions = [],
      rotation = 0, useCustomRotation = False, status = IDLE, result = None, error = None\<rparr>"

text \<open>
  The adapter operations a handler invokes, with their arguments, in the order of
  invocation. The handlers below return this list next to the new state.
\<close>

datatype Call =
    Call_validateClothingSafety string
  | Call_generateTryOn string string string Pose
  | Call_generateStyleRecommendations string
  | Call_generateStylistReview string string
  | Call_generateProductImage Recommendation

fun is_generation :: "Call \<Rightarrow> bool" where
  "is_generation (Call_generateTryOn u c i p) = True"
| "is_generation (Call_generateStyleRecommendations c) = True"
| "is_generation (Call_generateStylistReview u c) = True"
| "is_generation (Call_validateClothingSafety c) = False"
| "is_generation (Call_generateProductImage r) = False"

subsection \<open>The handlers of \<^verbatim>\<open>App.tsx\<close>\<close>

text \<open>
  \<^verbatim>\<open>await Promise.all([a, b, c])\<close> over the settled outcomes: the three values, or the
  error of a promise that rejected. The three functions are invoked one after the other
  before anything is awaited, and when several promises reject, the one that rejects
  first decides. In this program the second and the third promise reject only at the
  constructor of the client or at their \<open>parseBase64\<close>, before their first \<^verbatim>\<open>await\<close>; the
  order of the array is then the order of rejection (see \<open>rejections_agree\<close> below: the
  first promise has rejected too, with the same error).
\<close>

definition Promise_all3 :: "error + 'a \<Rightarrow> error + 'b \<Rightarrow> error + 'c \<Rightarrow> error + ('a \<times> 'b \<times> 'c)" where
  "Promise_all3 a b c =
     (case a of
        Inl e \<Rightarrow> Inl e
      | Inr x \<Rightarrow>
          (case b of
             Inl e \<Rightarrow> Inl e
           | Inr y \<Rightarrow> (case c of Inl e \<Rightarrow> Inl e | Inr z \<Rightarrow> Inr (x, y, z))))"

text \<open>
  The \<^verbatim>\<open>catch\<close> of \<open>handleTryOn\<close>:
  \<^verbatim>\<open>setError(err.message || "Failed to process the virtual try-on."); setStatus(AppStatus.ERROR)\<close>.
\<close>

definition handleTryOn_catch :: "error \<Rightarrow> App \<Rightarrow> App" where
  "handleTryOn_catch err s =
     s\<lparr>error := Some (or_else (Some (message err)) ''Failed to process the virtual try-on.''),
       status := ERROR\<rparr>"

text \<open>\<^verbatim>\<open>const pose: Pose = useCustomRotation ? rotation : 'original'\<close>\<close>

definition current_pose :: "App \<Rightarrow> Pose" where
  "current_pose s = (if useCustomRotation s then Pose_degrees (rotation s) else Pose_original)"

definition handleTryOn :: "Env \<Rightarrow> App \<Rightarrow> App \<times> Call list" where
  "handleTryOn env s =
     (case userImage s of
        None \<Rightarrow> (s, [])
      | Some u \<Rightarrow>
     (case clothingImage s of
        None \<Rightarrow> (s, [])
      | Some c \<Rightarrow>
          (let s1 = s\<lparr>status := PROCESSING, error := None, result := None\<rparr>;
               pose = current_pose s;
               safety = [Call_validateClothingSafety (base64 c)];
               fan_out = [Call_generateTryOn (base64 u) (base64 c) (instructions s) pose,
                          Call_generateStyleRecommendations (base64 c),
                          Call_generateStylistReview (base64 u) (base64 c)]
           in case validateClothingSafety env (base64 c) of
                Inl err \<Rightarrow> (handleTryOn_catch err s1, safety)
              | Inr safetyCheck \<Rightarrow>
                  (if \<not> valid safetyCheck
                   then (handleTryOn_catch
                           (Error (''Safety Alert: ''
                                   @ or_else (reason safetyCheck)
                                       ''This image cannot be processed due to safety guidelines.''))
                           s1,
                         safety)
                   else
                     (case Promise_all3
                             (generateTryOn env (base64 u) (base64 c) (instructions s) pose)
                             (generateStyleRecommendations env (base64 c))
                             (generateStylistReview env (base64 u) (base64 c)) of
                        Inl err \<Rightarrow> (handleTryOn_catch err s1, safety @ fan_out)
                      | Inr (tryOnResult, recs, stylistReview) \<Rightarrow>
                          (s1\<lparr>result := Some \<lparr>imageUrl = Some (tryOn_imageUrl tryOnResult),
                                                feedback = Some stylistReview,
                                                recommendations = Some recs\<rparr>,
                              status := SUCCESS\<rparr>,
                           safety @ fan_out))))))"

definition handleReset :: "App \<Rightarrow> App" where
  "handleReset s = s\<lparr>status := IDLE, result := None, error := None\<rparr>"

definition handleApplyRecommendation :: "Env \<Rightarrow> Recommendation \<Rightarrow> App \<Rightarrow> App \<times> Call list" where
  "handleApplyRecommendation env rec s =
     (let s1 = s\<lparr>status := PROCESSING\<rparr> in
      case generateProductImage env rec of
        Inr base64Image \<Rightarrow>
          (s1\<lparr>clothingImage := Some \<lparr>file_obj = \<lparr>name = itemName rec @ ''.png''\<rparr>,
                                      previewUrl = base64Image, base64 = base64Image\<rparr>,
              clothingModelUrl := None,
              instructions := ''Trying on '' @ colorHex rec @ '' '' @ itemName rec,
              result := None,
              status := IDLE\<rparr>,
           [Call_generateProductImage rec])
      | Inl err \<Rightarrow>
          (s1\<lparr>error := Some ''Could not visualize item. Please try again.'', status := IDLE\<rparr>,
           [Call_generateProductImage rec]))"

text \<open>
  \<^verbatim>\<open>fileData.file.name.match(/\.(glb|gltf)$/i)\<close>: the name ends in one of the two
  extensions, in any mix of upper and lower case.
\<close>

definition lower :: "char \<Rightarrow> char" where
  "lower c =
     (if (65::nat) \<le> of_char c \<and> of_char c \<le> (90::nat) then char_of (of_char c + (32::nat)) else c)"

definition is_3d_model_name :: "string \<Rightarrow> bool" where
  "is_3d_model_name n \<longleftrightarrow>
     (4 \<le> length n \<and> map lower (drop (length n - 4) n) = ''.glb'')
     \<or> (5 \<le> length n \<and> map lower (drop (length n - 5) n) = ''.gltf'')"

definition handleClothingUpload :: "ImageFile option \<Rightarrow> App \<Rightarrow> App" where
  "handleClothingUpload fileData s =
     (case fileData of
        None \<Rightarrow> s\<lparr>clothingImage := None, clothingModelUrl := None\<rparr>
      | Some f \<Rightarrow>
          (if is_3d_model_name (name (file_obj f))
           then s\<lparr>clothingModelUrl := Some (previewUrl f), clothingImage := None\<rparr>
           else s\<lparr>clothingModelUrl := None, clothingImage := Some f\<rparr>))"

definition handle3DSnapshot :: "string \<Rightarrow> App \<Rightarrow> App" where
  "handle3DSnapshot base64Data s =
     s\<lparr>clothingImage := Some \<lparr>file_obj = \<lparr>name = ''snapshot.png''\<rparr>,
                                previewUrl = base64Data, base64 = base64Data\<rparr>\<rparr>"

definition clearClothing :: "App \<Rightarrow> App" where
  "clearClothing s = s\<lparr>clothingImage := None, clothingModelUrl := None\<rparr>"

subsection \<open>The user's actions\<close>

text \<open>
  The value of \<^verbatim>\<open><input type="range" min="0" max="360">\<close> when the user asks for the
  position \<open>v\<close>: the control keeps its value between its two bounds, both included, in
  steps of one.
\<close>

definition range_value :: "int \<Rightarrow> int \<Rightarrow> int \<Rightarrow> int" where
  "range_value lo hi v = (if v < lo then lo else if hi < v then hi else v)"

text \<open>
  One constructor for each callback the component hands to its elements. The slider
  exists only while \<open>useCustomRotation\<close> holds; the button of \<open>handleTryOn\<close> is disabled
  without both images and while the status is \<open>PROCESSING\<close>.
\<close>

datatype Event =
    UserImageChange "ImageFile option"
  | ClothingUpload "ImageFile option"
  | Snapshot string
  | ClearClothing
  | ToggleCustomRotation
  | RotationInput int
  | InstructionsChange string
  | TryOn
  | Reset
  | ApplyRecommendation Recommendation

fun dispatch :: "Env \<Rightarrow> Event \<Rightarrow> App \<Rightarrow> App \<times> Call list" where
  "dispatch env (UserImageChange f) s = (s\<lparr>userImage := f\<rparr>, [])"
| "dispatch env (ClothingUpload f) s = (handleClothingUpload f s, [])"
| "dispatch env (Snapshot d) s = (handle3DSnapshot d s, [])"
| "dispatch env ClearClothing s = (clearClothing s, [])"
| "dispatch env ToggleCustomRotation s = (s\<lparr>useCustomRotation := \<not> useCustomRotation s\<rparr>, [])"
| "dispatch env (RotationInput v) s =
     (if useCustomRotation s then (s\<lparr>rotation := range_value 0 360 v\<rparr>, []) else (s, []))"
| "dispatch env (InstructionsChange t) s = (s\<lparr>instructions := t\<rparr>, [])"
| "dispatch env TryOn s =
     (if userImage s \<noteq> None \<and> clothingImage s \<noteq> None \<and> status s \<noteq> PROCESSING
      then handleTryOn env s else (s, []))"
| "dispatch env Reset s = (handleReset s, [])"
| "dispatch env (ApplyRecommendation r) s = handleApplyRecommendation env r s"

text \<open>A session: the state after a list of actions, and all the calls made on the way.\<close>

fun run :: "Env \<Rightarrow> Event list \<Rightarrow> App \<Rightarrow> App \<times> Call list" where
  "run env [] s = (s, [])"
| "run env (ev # evs) s =
     (case dispatch env ev s of
        (s', calls) \<Rightarrow> (case run env evs s' of (s'', calls') \<Rightarrow> (s'', calls @ calls')))"

subsection \<open>Concrete environments and inputs for the examples\<close>

text \<open>
  A client that answers each of the five kinds of request with a given outcome, and the
  environment in which the constructor returns this client.
  Its \<^verbatim>\<open>JSON.parse\<close> knows four texts, \<^verbatim>\<open>{"valid":true}\<close>, \<^verbatim>\<open>{"valid":false}\<close>, \<^verbatim>\<open>[]\<close>
  and the array \<open>json_scarf\<close> of one recommendation, and rejects every other text; the
  examples use only these four and the text \<^verbatim>\<open>Sorry\<close>, which is not JSON.
\<close>

definition quoted :: "string \<Rightarrow> string" where
  "quoted t = [CHR 0x22] @ t @ [CHR 0x22]"

definition scarf :: Recommendation where
  "scarf = \<lparr>itemName = ''Scarf'', category = ''Accessory'', rec_reason = ''warm'', colorHex = ''#aa0000''\<rparr>"

definition json_scarf :: string where
  "json_scarf =
     ''[{'' @ quoted ''itemName'' @ '':'' @ quoted ''Scarf'' @ '',''
          @ quoted ''category'' @ '':'' @ quoted ''Accessory'' @ '',''
          @ quoted ''reason'' @ '':'' @ quoted ''warm'' @ '',''
          @ quoted ''colorHex'' @ '':'' @ quoted ''#aa0000'' @ ''}]''"

definition json_valid_true :: string where
  "json_valid_true = ''{'' @ [CHR 0x22] @ ''valid'' @ [CHR 0x22] @ '':true}''"

definition json_valid_false :: string where
  "json_valid_false = ''{'' @ [CHR 0x22] @ ''valid'' @ [CHR 0x22] @ '':false}''"

definition example_client ::
  "(error + GenerateContentResponse) \<Rightarrow> (error + GenerateContentResponse) \<Rightarrow>
   (error + GenerateContentResponse) \<Rightarrow> (error + GenerateContentResponse) \<Rightarrow>
   (error + GenerateContentResponse) \<Rightarrow> Client" where
  "example_client safety tryOn recs review product =
     \<lparr>generateContent =
        (\<lambda>req. case req of
            SafetyRequest c \<Rightarrow> safety
          | ReviewRequest u c \<Rightarrow> review
          | TryOnRequest u c i p \<Rightarrow> tryOn
          | RecommendationsRequest c \<Rightarrow> recs
          | ProductImageRequest r \<Rightarrow> product)\<rparr>"

definition example_env ::
  "(error + GenerateContentResponse) \<Rightarrow> (error + GenerateContentResponse) \<Rightarrow>
   (error + GenerateContentResponse) \<Rightarrow> (error + GenerateContentResponse) \<Rightarrow>
   (error + GenerateContentResponse) \<Rightarrow> Env" where
  "example_env safety tryOn recs review product =
     \<lparr>GoogleGenAI = Inr (example_client safety tryOn recs review product),
      JSON_parse_SafetyCheck =
        (\<lambda>t. if t = json_valid_true then Some \<lparr>valid = True, reason = None\<rparr>
             else if t = json_valid_false then Some \<lparr>valid = False, reason = None\<rparr>
             else None),
      JSON_parse_Recommendations =
        (\<lambda>t. if t = ''[]'' then Some [] else if t = json_scarf then Some [scarf] else None)\<rparr>"

text \<open>A response with the given text and, in its first candidate, the given parts.\<close>

definition respond :: "string option \<Rightarrow> Part list \<Rightarrow> error + GenerateContentResponse" where
  "respond t ps =
     Inr \<lparr>candidates = Some [\<lparr>content = Some \<lparr>parts = Some ps\<rparr>\<rparr>], response_text = t\<rparr>"

definition image_part :: "string \<Rightarrow> string \<Rightarrow> Part" where
  "image_part m d = \<lparr>inlineData = Some \<lparr>mimeType = m, data = d\<rparr>, part_text = None\<rparr>"

definition text_part :: "string \<Rightarrow> Part" where
  "text_part t = \<lparr>inlineData = None, part_text = Some t\<rparr>"

definition unavailable :: "error + GenerateContentResponse" where
  "unavailable = Inl (Error ''503 Service Unavailable'')"

definition person_photo :: ImageFile where
  "person_photo =
     \<lparr>file_obj = \<lparr>name = ''me.png''\<rparr>, previewUrl = ''blob:1'',
      base64 = ''data:image/png;base64,AAAA''\<rparr>"

definition garment_photo :: ImageFile where
  "garment_photo =
     \<lparr>file_obj = \<lparr>name = ''coat.jpg''\<rparr>, previewUrl = ''blob:2'',
      base64 = ''data:image/jpeg;base64,BBBB''\<rparr>"

text \<open>
  An environment in which every request succeeds, and a session in which the user picks
  both files, opens the advanced settings, drags the slider to its right end and presses
  the button.
\<close>

definition all_well :: Env where
  "all_well =
     example_env (respond (Some json_valid_true) []) (respond None [image_part ''image/png'' ''CCCC''])
       (respond (Some ''[]'') []) (respond (Some ''Lovely.'') [])
       (respond None [image_part ''image/png'' ''DDDD''])"

definition full_turn_session :: "Event list" where
  "full_turn_session =
     [UserImageChange (Some person_photo), ClothingUpload (Some garment_photo),
      ToggleCustomRotation, RotationInput 360, TryOn]"

text \<open>The state with both images chosen.\<close>

definition ready :: App where
  "ready = initial\<lparr>userImage := Some person_photo, clothingImage := Some garment_photo\<rparr>"

subsection \<open>Properties of the data URL parser\<close>

lemma match_payload_Some:
  "match_payload s = Some d \<Longrightarrow> s = '';base64,'' @ d \<and> d \<noteq> []"
proof -
  assume h: "match_payload s = Some d"
  then have t: "take 8 s = '';base64,''" and d: "d = drop 8 s" and n: "d \<noteq> []"
    by (auto simp: match_payload_def split: if_splits)
  have "s = take 8 s @ drop 8 s" by simp
  with t d n show ?thesis by metis
qed

lemma match_mime_Some:
  "match_mime m s = Some (a, d) \<Longrightarrow> m @ s = a @ '';base64,'' @ d \<and> a \<noteq> [] \<and> d \<noteq> []"
proof (induction s arbitrary: m)
  case Nil
  then show ?case by simp
next
  case (Cons c cs)
  show ?case
  proof (cases "(if is_line_terminator c then None else match_mime (m @ [c]) cs)")
    case (Some r)
    with Cons.prems have r: "r = (a, d)" by simp
    from Some r have "match_mime (m @ [c]) cs = Some (a, d)"
      by (simp split: if_splits)
    from Cons.IH [OF this] show ?thesis by simp
  next
    case None
    with Cons.prems have m: "m \<noteq> []" and p: "match_payload (c # cs) = Some d" and a: "a = m"
      by (auto split: if_splits option.splits)
    from match_payload_Some [OF p] m a show ?thesis by simp
  qed
qed

lemma match_data_url_Some:
  "match_data_url s = Some (a, d) \<Longrightarrow> s = ''data:'' @ a @ '';base64,'' @ d \<and> a \<noteq> [] \<and> d \<noteq> []"
proof -
  assume h: "match_data_url s = Some (a, d)"
  then have t: "take 5 s = ''data:''" and mm: "match_mime [] (drop 5 s) = Some (a, d)"
    by (auto simp: match_data_url_def split: if_splits)
  from match_mime_Some [OF mm] have r: "drop 5 s = a @ '';base64,'' @ d" and n: "a \<noteq> []" "d \<noteq> []"
    by simp_all
  have "s = take 5 s @ drop 5 s" by simp
  with t r have "s = ''data:'' @ a @ '';base64,'' @ d" by metis
  with n show ?thesis by simp
qed

lemma parseBase64_Inr_shape:
  "parseBase64 s = Inr img \<Longrightarrow>
     s = ''data:'' @ mimeType img @ '';base64,'' @ data img \<and> mimeType img \<noteq> [] \<and> data img \<noteq> []"
proof -
  assume h: "parseBase64 s = Inr img"
  then obtain a d where m: "match_data_url s = Some (a, d)" and i: "img = \<lparr>mimeType = a, data = d\<rparr>"
    by (auto simp: parseBase64_def split: option.splits)
  from match_data_url_Some [OF m] i show ?thesis by simp
qed

lemma parseBase64_cases:
  "parseBase64 s = Inl (Error ''Invalid base64 string provided.'') \<or> (\<exists>img. parseBase64 s = Inr img)"
  by (auto simp: parseBase64_def split: option.splits)

text \<open>
  Claim C5. Every input that is not of the shape \<^verbatim>\<open>data:<mime>;base64,<payload>\<close> makes
  \<open>parseBase64\<close> fail with the format error (the \<open>Inl\<close> of the sum: there is no pair of
  MIME type and payload in the outcome, neither a default nor a partial one).
\<close>

theorem parseBase64_rejects_malformed:
  "\<not> spec_data_url_shape s \<Longrightarrow> parseBase64 s = Inl (Error ''Invalid base64 string provided.'')"
proof -
  assume n: "\<not> spec_data_url_shape s"
  have "\<not> (\<exists>img. parseBase64 s = Inr img)"
  proof
    assume "\<exists>img. parseBase64 s = Inr img"
    then obtain img where "parseBase64 s = Inr img" ..
    from parseBase64_Inr_shape [OF this] have "spec_data_url_shape s"
      unfolding spec_data_url_shape_def by blast
    with n show False ..
  qed
  with parseBase64_cases [of s] show ?thesis by blast
qed

text \<open>A string without the scheme, one without the comma, and one with nothing of the shape.\<close>

theorem parseBase64_rejects_malformed_witness:
  "\<not> spec_data_url_shape ''image/png;base64,AAAA''
   \<and> parseBase64 ''image/png;base64,AAAA'' = Inl (Error ''Invalid base64 string provided.'')
   \<and> \<not> spec_data_url_shape ''data:image/png;base64AAAA''
   \<and> parseBase64 ''data:image/png;base64AAAA'' = Inl (Error ''Invalid base64 string provided.'')
   \<and> \<not> spec_data_url_shape ''coat.jpg''
   \<and> parseBase64 ''coat.jpg'' = Inl (Error ''Invalid base64 string provided.'')"
proof -
  have a: "\<not> spec_data_url_shape ''image/png;base64,AAAA''"
    by (simp add: spec_data_url_shape_def)
  have b: "\<not> spec_data_url_shape ''data:image/png;base64AAAA''"
    by (auto simp: spec_data_url_shape_def Cons_eq_append_conv)
  have c: "\<not> spec_data_url_shape ''coat.jpg''"
    by (simp add: spec_data_url_shape_def)
  from a b c parseBase64_rejects_malformed [OF a] parseBase64_rejects_malformed [OF b]
       parseBase64_rejects_malformed [OF c]
  show ?thesis by blast
qed


subsection \<open>Facts about the adapter shared by the properties below\<close>

lemma parse_person_photo:
  "parseBase64 ''data:image/png;base64,AAAA'' = Inr \<lparr>mimeType = ''image/png'', data = ''AAAA''\<rparr>"
  by (simp add: parseBase64_def match_data_url_def match_payload_def is_line_terminator_def)

lemma parse_garment_photo:
  "parseBase64 ''data:image/jpeg;base64,BBBB'' = Inr \<lparr>mimeType = ''image/jpeg'', data = ''BBBB''\<rparr>"
  by (simp add: parseBase64_def match_data_url_def match_payload_def is_line_terminator_def)

lemma example_env_client:
  "GoogleGenAI (example_env safety tryOn recs review product)
   = Inr (example_client safety tryOn recs review product)"
  by (simp add: example_env_def)


lemma ready_images:
  "userImage ready = Some person_photo" "clothingImage ready = Some garment_photo"
  "instructions ready = []" "current_pose ready = Pose_original"
  by (simp_all add: ready_def initial_def current_pose_def)

lemma photo_base64:
  "base64 person_photo = ''data:image/png;base64,AAAA''"
  "base64 garment_photo = ''data:image/jpeg;base64,BBBB''"
  by (simp_all add: person_photo_def garment_photo_def)

text \<open>
  When the constructor throws, each of the five functions throws that error: the
  construction stands before every \<^verbatim>\<open>try\<close>.
\<close>

lemma constructor_error_propagates:
  assumes "GoogleGenAI env = Inl e"
  shows "validateClothingSafety env c = Inl e"
    and "generateStylistReview env u c = Inl e"
    and "generateTryOn env u c i p = Inl e"
    and "generateStyleRecommendations env c = Inl e"
    and "generateProductImage env r = Inl e"
  using assms
  by (simp_all add: validateClothingSafety_def generateStylistReview_def generateTryOn_def
                    generateStyleRecommendations_def generateProductImage_def)

text \<open>Once a client exists, an error of \<open>generateTryOn\<close> has a message.\<close>

lemma generateTryOn_message:
  "GoogleGenAI env = Inr ai \<Longrightarrow> generateTryOn env u c i p = Inl e \<Longrightarrow> message e \<noteq> []"
  using parseBase64_cases [of u] parseBase64_cases [of c]
  by (auto simp: generateTryOn_def tryOn_catch_def split: sum.splits if_splits)

text \<open>A check was returned, or an image: then the client exists and the data URLs are well formed.\<close>

lemma validateClothingSafety_Inr_client:
  "validateClothingSafety env c = Inr chk \<Longrightarrow> \<exists>ai. GoogleGenAI env = Inr ai"
  by (cases "GoogleGenAI env") (auto simp: validateClothingSafety_def)

lemma validateClothingSafety_Inr_parse:
  "validateClothingSafety env c = Inr chk \<Longrightarrow> \<exists>img. parseBase64 c = Inr img"
  by (auto simp: validateClothingSafety_def split: sum.splits)




text \<open>
  The second and the third promise of the fan-out reject only before their \<^verbatim>\<open>try\<close>, with
  the error of the constructor or with the format error, and then the first one has
  rejected with the same error: whichever rejection \<^verbatim>\<open>Promise.all\<close> reports, it is the
  error of \<open>generateTryOn\<close>.
\<close>

lemma rejections_agree:
  "generateStyleRecommendations env c = Inl e \<Longrightarrow> generateTryOn env u c i p = Inl e"
  "generateStylistReview env u c = Inl e \<Longrightarrow> generateTryOn env u c i p = Inl e"
  using parseBase64_cases [of u] parseBase64_cases [of c]
  by (auto simp: generateStyleRecommendations_def generateStylistReview_def generateTryOn_def
           split: sum.splits option.splits if_splits)

subsection \<open>The safety gate in the workflow\<close>

text \<open>
  Claim C1. In a run of \<open>handleTryOn\<close> (both images present), when the safety check
  throws or returns a check that is not valid, the only call of the run is the safety
  check itself: none of \<open>generateTryOn\<close>, \<open>generateStyleRecommendations\<close> and
  \<open>generateStylistReview\<close> is invoked, and the run ends in the status \<open>ERROR\<close>.
\<close>

theorem safety_gate_blocks_generation:
  assumes "userImage s = Some u" and "clothingImage s = Some c"
    and "(\<exists>e. validateClothingSafety env (base64 c) = Inl e)
         \<or> (\<exists>chk. validateClothingSafety env (base64 c) = Inr chk \<and> \<not> valid chk)"
  shows "status (fst (handleTryOn env s)) = ERROR
         \<and> snd (handleTryOn env s) = [Call_validateClothingSafety (base64 c)]
         \<and> filter is_generation (snd (handleTryOn env s)) = []"
  using assms
  by (auto simp: handleTryOn_def handleTryOn_catch_def Let_def)

theorem safety_gate_blocks_generation_witness:
  "validateClothingSafety
     (example_env unavailable unavailable unavailable unavailable unavailable)
     (base64 garment_photo)
   = Inl (Error ''Security validation service is currently unavailable.'')
   \<and> status (fst (handleTryOn
        (example_env unavailable unavailable unavailable unavailable unavailable) ready)) = ERROR
   \<and> snd (handleTryOn
        (example_env unavailable unavailable unavailable unavailable unavailable) ready)
       = [Call_validateClothingSafety (base64 garment_photo)]
   \<and> validateClothingSafety
        (example_env (respond (Some json_valid_false) []) unavailable unavailable unavailable unavailable)
        (base64 garment_photo)
      = Inr \<lparr>valid = False, reason = None\<rparr>
   \<and> status (fst (handleTryOn
        (example_env (respond (Some json_valid_false) []) unavailable unavailable unavailable unavailable)
        ready)) = ERROR
   \<and> filter is_generation (snd (handleTryOn
        (example_env (respond (Some json_valid_false) []) unavailable unavailable unavailable unavailable)
        ready)) = []"
proof -
  let ?down = "example_env unavailable unavailable unavailable unavailable unavailable"
  let ?deny = "example_env (respond (Some json_valid_false) []) unavailable unavailable unavailable unavailable"
  have v: "validateClothingSafety ?down (base64 garment_photo)
           = Inl (Error ''Security validation service is currently unavailable.'')"
    by (simp add: validateClothingSafety_def photo_base64 parse_garment_photo example_env_def example_client_def
                  unavailable_def)
  have w: "validateClothingSafety ?deny (base64 garment_photo) = Inr \<lparr>valid = False, reason = None\<rparr>"
    by (simp add: validateClothingSafety_def photo_base64 parse_garment_photo example_env_def example_client_def
                  respond_def json_valid_true_def json_valid_false_def)
  from v have hv: "(\<exists>e. validateClothingSafety ?down (base64 garment_photo) = Inl e)
         \<or> (\<exists>chk. validateClothingSafety ?down (base64 garment_photo) = Inr chk \<and> \<not> valid chk)"
    by simp
  from w have hw: "(\<exists>e. validateClothingSafety ?deny (base64 garment_photo) = Inl e)
         \<or> (\<exists>chk. validateClothingSafety ?deny (base64 garment_photo) = Inr chk \<and> \<not> valid chk)"
    by simp
  from safety_gate_blocks_generation [OF ready_images(1) ready_images(2) hv]
       safety_gate_blocks_generation [OF ready_images(1) ready_images(2) hw] v w
  show ?thesis by simp
qed

subsection \<open>The safety check of the adapter\<close>

text \<open>
  Claim C2, as the code has it. Once the request has been sent (on the client \<open>ai\<close>
  that the constructor returned, for a garment that is a well-formed data URL):
  \<^item> a response without text (absent or empty) gives the default denial;
  \<^item> a response whose text \<^verbatim>\<open>JSON.parse\<close> rejects raises the error of the unavailable
    service, as does
  \<^item> a backend call that throws;
  in the last two cases no check is returned, valid or not.
\<close>

theorem safety_check_asymmetry:
  assumes "GoogleGenAI env = Inr ai" and "parseBase64 c = Inr img"
  shows "(generateContent ai (SafetyRequest img) = Inr response \<and> \<not> truthy (response_text response)
            \<longrightarrow> validateClothingSafety env c
                  = Inr \<lparr>valid = False, reason = Some ''Unable to verify image safety.''\<rparr>)
       \<and> (generateContent ai (SafetyRequest img) = Inr response \<and> response_text response = Some t
            \<and> t \<noteq> [] \<and> JSON_parse_SafetyCheck env t = None
            \<longrightarrow> validateClothingSafety env c
                  = Inl (Error ''Security validation service is currently unavailable.''))
       \<and> (generateContent ai (SafetyRequest img) = Inl e
            \<longrightarrow> validateClothingSafety env c
                  = Inl (Error ''Security validation service is currently unavailable.''))"
  using assms
  by (cases "response_text response") (auto simp: validateClothingSafety_def)

theorem safety_check_asymmetry_witness:
  "validateClothingSafety
     (example_env (respond None []) unavailable unavailable unavailable unavailable)
     ''data:image/jpeg;base64,BBBB''
   = Inr \<lparr>valid = False, reason = Some ''Unable to verify image safety.''\<rparr>
   \<and> validateClothingSafety
       (example_env (respond (Some ''Sorry'') []) unavailable unavailable unavailable unavailable)
       ''data:image/jpeg;base64,BBBB''
     = Inl (Error ''Security validation service is currently unavailable.'')
   \<and> validateClothingSafety
       (example_env unavailable unavailable unavailable unavailable unavailable)
       ''data:image/jpeg;base64,BBBB''
     = Inl (Error ''Security validation service is currently unavailable.'')"
proof -
  let ?img = "\<lparr>mimeType = ''image/jpeg'', data = ''BBBB''\<rparr>"
  let ?silent = "example_env (respond None []) unavailable unavailable unavailable unavailable"
  let ?silent_ai = "example_client (respond None []) unavailable unavailable unavailable unavailable"
  let ?sorry_text = "example_env (respond (Some ''Sorry'') []) unavailable unavailable unavailable unavailable"
  let ?sorry_ai = "example_client (respond (Some ''Sorry'') []) unavailable unavailable unavailable unavailable"
  let ?down = "example_env unavailable unavailable unavailable unavailable unavailable"
  let ?down_ai = "example_client unavailable unavailable unavailable unavailable unavailable"
  let ?r1 = "\<lparr>candidates = Some [\<lparr>content = Some \<lparr>parts = Some []\<rparr>\<rparr>], response_text = None\<rparr>"
  let ?r2 = "\<lparr>candidates = Some [\<lparr>content = Some \<lparr>parts = Some []\<rparr>\<rparr>],
             response_text = Some ''Sorry''\<rparr>"
  have a: "generateContent ?silent_ai (SafetyRequest ?img) = Inr ?r1 \<and> \<not> truthy (response_text ?r1)"
    by (simp add: example_client_def respond_def)
  have b: "generateContent ?sorry_ai (SafetyRequest ?img) = Inr ?r2 \<and> response_text ?r2 = Some ''Sorry''
           \<and> ''Sorry'' \<noteq> [] \<and> JSON_parse_SafetyCheck ?sorry_text ''Sorry'' = None"
    by (simp add: example_env_def example_client_def respond_def json_valid_true_def json_valid_false_def)
  have c: "generateContent ?down_ai (SafetyRequest ?img) = Inl (Error ''503 Service Unavailable'')"
    by (simp add: example_client_def unavailable_def)
  from safety_check_asymmetry [OF example_env_client parse_garment_photo, of _ _ _ _ _ ?r1] a
  have 1: "validateClothingSafety ?silent ''data:image/jpeg;base64,BBBB''
           = Inr \<lparr>valid = False, reason = Some ''Unable to verify image safety.''\<rparr>"
    by blast
  from safety_check_asymmetry [OF example_env_client parse_garment_photo, of _ _ _ _ _ ?r2 "''Sorry''"] b
  have 2: "validateClothingSafety ?sorry_text ''data:image/jpeg;base64,BBBB''
           = Inl (Error ''Security validation service is currently unavailable.'')"
    by blast
  from safety_check_asymmetry
         [OF example_env_client parse_garment_photo, of _ _ _ _ _ _ _ "Error ''503 Service Unavailable''"] c
  have 3: "validateClothingSafety ?down ''data:image/jpeg;base64,BBBB''
           = Inl (Error ''Security validation service is currently unavailable.'')"
    by blast
  from 1 2 3 show ?thesis by blast
qed

text \<open>
  The claim as it is written fails: the backend call completes with the text
  \<^verbatim>\<open>Sorry\<close>, which \<^verbatim>\<open>JSON.parse\<close> rejects, and the check does not return the default
  denial but raises.
\<close>

theorem safety_check_unparseable_counterexample:
  "GoogleGenAI
     (example_env (respond (Some ''Sorry'') []) unavailable unavailable unavailable unavailable)
   = Inr (example_client (respond (Some ''Sorry'') []) unavailable unavailable unavailable unavailable)
   \<and> generateContent
       (example_client (respond (Some ''Sorry'') []) unavailable unavailable unavailable unavailable)
       (SafetyRequest \<lparr>mimeType = ''image/jpeg'', data = ''BBBB''\<rparr>)
     = respond (Some ''Sorry'') []
   \<and> JSON_parse_SafetyCheck
       (example_env (respond (Some ''Sorry'') []) unavailable unavailable unavailable unavailable)
       ''Sorry'' = None
   \<and> validateClothingSafety
       (example_env (respond (Some ''Sorry'') []) unavailable unavailable unavailable unavailable)
       ''data:image/jpeg;base64,BBBB''
     = Inl (Error ''Security validation service is currently unavailable.'')"
  by (simp add: validateClothingSafety_def parse_garment_photo example_env_def example_client_def respond_def
                json_valid_true_def json_valid_false_def)

subsection \<open>The fan-out of the workflow\<close>

text \<open>
  Claim C3. In a run in which the safety check passes and \<open>generateTryOn\<close> fails, the
  status becomes \<open>ERROR\<close>, the error shown is the message of the error of
  \<open>generateTryOn\<close>, and the result is \<^verbatim>\<open>null\<close>: whatever the recommendations and the
  review returned is dropped.
\<close>

theorem tryOn_failure_aborts_cycle:
  assumes "userImage s = Some u" and "clothingImage s = Some c"
    and "validateClothingSafety env (base64 c) = Inr chk" and "valid chk"
    and "generateTryOn env (base64 u) (base64 c) (instructions s) (current_pose s) = Inl e"
  shows "status (fst (handleTryOn env s)) = ERROR
         \<and> error (fst (handleTryOn env s)) = Some (message e)
         \<and> result (fst (handleTryOn env s)) = None"
proof -
  from validateClothingSafety_Inr_client [OF assms(3)] obtain ai where "GoogleGenAI env = Inr ai" ..
  from generateTryOn_message [OF this assms(5)] have "message e \<noteq> []" .
  with assms show ?thesis
    by (simp add: handleTryOn_def handleTryOn_catch_def Promise_all3_def Let_def)
qed

theorem tryOn_failure_aborts_cycle_witness:
  "validateClothingSafety
     (example_env (respond (Some json_valid_true) []) unavailable
        (respond (Some ''[]'') []) (respond (Some ''Lovely.'') []) unavailable)
     (base64 garment_photo)
   = Inr \<lparr>valid = True, reason = None\<rparr>
   \<and> generateTryOn
       (example_env (respond (Some json_valid_true) []) unavailable
          (respond (Some ''[]'') []) (respond (Some ''Lovely.'') []) unavailable)
       (base64 person_photo) (base64 garment_photo) (instructions ready) (current_pose ready)
     = Inl (Error ''503 Service Unavailable'')
   \<and> generateStylistReview
       (example_env (respond (Some json_valid_true) []) unavailable
          (respond (Some ''[]'') []) (respond (Some ''Lovely.'') []) unavailable)
       (base64 person_photo) (base64 garment_photo)
     = Inr ''Lovely.''
   \<and> status (fst (handleTryOn
       (example_env (respond (Some json_valid_true) []) unavailable
          (respond (Some ''[]'') []) (respond (Some ''Lovely.'') []) unavailable) ready)) = ERROR
   \<and> error (fst (handleTryOn
       (example_env (respond (Some json_valid_true) []) unavailable
          (respond (Some ''[]'') []) (respond (Some ''Lovely.'') []) unavailable) ready))
     = Some ''503 Service Unavailable''
   \<and> result (fst (handleTryOn
       (example_env (respond (Some json_valid_true) []) unavailable
          (respond (Some ''[]'') []) (respond (Some ''Lovely.'') []) unavailable) ready)) = None"
proof -
  let ?env = "example_env (respond (Some json_valid_true) []) unavailable
                (respond (Some ''[]'') []) (respond (Some ''Lovely.'') []) unavailable"
  have v: "validateClothingSafety ?env (base64 garment_photo) = Inr \<lparr>valid = True, reason = None\<rparr>"
    by (simp add: validateClothingSafety_def photo_base64 parse_garment_photo example_env_def example_client_def
                  respond_def json_valid_true_def)
  have ok: "valid \<lparr>valid = True, reason = None\<rparr>"
    by simp
  have t: "generateTryOn ?env (base64 person_photo) (base64 garment_photo) (instructions ready)
             (current_pose ready) = Inl (Error ''503 Service Unavailable'')"
    by (simp add: generateTryOn_def photo_base64 parse_person_photo parse_garment_photo
                  example_env_def example_client_def unavailable_def tryOn_catch_def)
  have r: "generateStylistReview ?env (base64 person_photo) (base64 garment_photo) = Inr ''Lovely.''"
    by (simp add: generateStylistReview_def photo_base64 parse_person_photo parse_garment_photo
                  example_env_def example_client_def respond_def)
  from tryOn_failure_aborts_cycle [OF ready_images(1) ready_images(2) v ok t] v t r
  show ?thesis by simp
qed




subsection \<open>Applying a recommendation\<close>

text \<open>
  Claim C6. When \<open>generateProductImage\<close> succeeds, \<open>handleApplyRecommendation\<close> puts the
  synthesized image in the place of the garment, sets the instructions to
  \<^verbatim>\<open>Trying on <colorHex> <itemName>\<close>, drops the previous result and leaves the status
  \<open>IDLE\<close>.
\<close>

theorem apply_recommendation_success:
  assumes "generateProductImage env rec = Inr img"
  shows "clothingImage (fst (handleApplyRecommendation env rec s))
           = Some \<lparr>file_obj = \<lparr>name = itemName rec @ ''.png''\<rparr>, previewUrl = img, base64 = img\<rparr>
         \<and> instructions (fst (handleApplyRecommendation env rec s))
           = ''Trying on '' @ colorHex rec @ '' '' @ itemName rec
         \<and> result (fst (handleApplyRecommendation env rec s)) = None
         \<and> status (fst (handleApplyRecommendation env rec s)) = IDLE"
  using assms by (simp add: handleApplyRecommendation_def)

theorem apply_recommendation_success_witness:
  "generateProductImage
     (example_env unavailable unavailable unavailable unavailable
        (respond None [image_part ''image/webp'' ''DDDD''])) scarf
   = Inr ''data:image/png;base64,DDDD''
   \<and> clothingImage (fst (handleApplyRecommendation
       (example_env unavailable unavailable unavailable unavailable
          (respond None [image_part ''image/webp'' ''DDDD''])) scarf ready))
     = Some \<lparr>file_obj = \<lparr>name = ''Scarf.png''\<rparr>, previewUrl = ''data:image/png;base64,DDDD'',
             base64 = ''data:image/png;base64,DDDD''\<rparr>
   \<and> instructions (fst (handleApplyRecommendation
       (example_env unavailable unavailable unavailable unavailable
          (respond None [image_part ''image/webp'' ''DDDD''])) scarf ready))
     = ''Trying on #aa0000 Scarf''
   \<and> result (fst (handleApplyRecommendation
       (example_env unavailable unavailable unavailable unavailable
          (respond None [image_part ''image/webp'' ''DDDD''])) scarf ready)) = None
   \<and> status (fst (handleApplyRecommendation
       (example_env unavailable unavailable unavailable unavailable
          (respond None [image_part ''image/webp'' ''DDDD''])) scarf ready)) = IDLE"
proof -
  let ?env = "example_env unavailable unavailable unavailable unavailable
                (respond None [image_part ''image/webp'' ''DDDD''])"
  have g: "generateProductImage ?env scarf = Inr ''data:image/png;base64,DDDD''"
    by (simp add: generateProductImage_def product_try_def example_env_def example_client_def respond_def
                  image_part_def response_parts_def)
  from apply_recommendation_success [OF g, of ready] g show ?thesis
    by (simp add: scarf_def)
qed

text \<open>
  Claim C7. When \<open>generateProductImage\<close> fails, \<open>handleApplyRecommendation\<close> leaves the
  status \<open>IDLE\<close> and shows the fixed message; the garment, the person's image and the
  instructions stay as they were.
\<close>

theorem apply_recommendation_failure:
  assumes "generateProductImage env rec = Inl e"
  shows "status (fst (handleApplyRecommendation env rec s)) = IDLE
         \<and> error (fst (handleApplyRecommendation env rec s))
           = Some ''Could not visualize item. Please try again.''
         \<and> clothingImage (fst (handleApplyRecommendation env rec s)) = clothingImage s
         \<and> userImage (fst (handleApplyRecommendation env rec s)) = userImage s
         \<and> instructions (fst (handleApplyRecommendation env rec s)) = instructions s"
  using assms by (simp add: handleApplyRecommendation_def)

theorem apply_recommendation_failure_witness:
  "generateProductImage
     (example_env unavailable unavailable unavailable unavailable unavailable) scarf
   = Inl (Error ''Failed to visualize the recommended item.'')
   \<and> status (fst (handleApplyRecommendation
       (example_env unavailable unavailable unavailable unavailable unavailable) scarf ready)) = IDLE
   \<and> error (fst (handleApplyRecommendation
       (example_env unavailable unavailable unavailable unavailable unavailable) scarf ready))
     = Some ''Could not visualize item. Please try again.''
   \<and> clothingImage (fst (handleApplyRecommendation
       (example_env unavailable unavailable unavailable unavailable unavailable) scarf ready))
     = Some garment_photo
   \<and> userImage (fst (handleApplyRecommendation
       (example_env unavailable unavailable unavailable unavailable unavailable) scarf ready))
     = Some person_photo
   \<and> instructions (fst (handleApplyRecommendation
       (example_env unavailable unavailable unavailable unavailable unavailable) scarf ready)) = []"
proof -
  let ?env = "example_env unavailable unavailable unavailable unavailable unavailable"
  have g: "generateProductImage ?env scarf = Inl (Error ''Failed to visualize the recommended item.'')"
    by (simp add: generateProductImage_def product_try_def example_env_def example_client_def unavailable_def)
  from apply_recommendation_failure [OF g, of ready] g show ?thesis
    by (simp add: ready_images)
qed

subsection \<open>Reading the response of an image request\<close>

lemma product_scan_None:
  "list_all (\<lambda>p. inlineData p = None) ps \<Longrightarrow> product_scan ps = None"
  by (induction ps) auto

lemma find_text_Some:
  "list_ex (\<lambda>p. truthy (part_text p)) ps \<Longrightarrow> \<exists>t. find_text ps = Some t \<and> t \<noteq> []"
proof (induction ps)
  case Nil
  then show ?case by simp
next
  case (Cons p ps)
  show ?case
  proof (cases "truthy (part_text p)")
    case True
    then show ?thesis by (cases "part_text p") auto
  next
    case False
    with Cons show ?thesis by simp
  qed
qed

text \<open>
  Claim C8, as the code has it. For a response (to the request made on the client \<open>ai\<close>
  that the constructor returned) with a text part and no part with inline data,
  \<open>generateProductImage\<close> does build a reason from the returned text (without the
  fenced blocks, cut at 50 characters), but inside its own \<^verbatim>\<open>try\<close>; its \<^verbatim>\<open>catch\<close> replaces
  that error, and the error that leaves the function has the fixed message only.
\<close>

theorem product_image_text_only:
  assumes "GoogleGenAI env = Inr ai"
    and "generateContent ai (ProductImageRequest rec) = Inr response"
    and "list_all (\<lambda>p. inlineData p = None) (response_parts response)"
    and "list_ex (\<lambda>p. truthy (part_text p)) (response_parts response)"
  shows "generateProductImage env rec = Inl (Error ''Failed to visualize the recommended item.'')
         \<and> (\<exists>t. find_text (response_parts response) = Some t \<and> t \<noteq> []
                \<and> product_try ai rec
                    = Inl (Error (''Model returned text: ''
                                  @ take 50 (trim (remove_fenced ''```'' t)) @ ''...'')))"
proof -
  let ?ps = "response_parts response"
  from product_scan_None [OF assms(3)] have n: "product_scan ?ps = None" .
  from find_text_Some [OF assms(4)] obtain t where t: "find_text ?ps = Some t" "t \<noteq> []"
    by blast
  from assms(2) n t
  have p: "product_try ai rec
           = Inl (Error (''Model returned text: '' @ take 50 (trim (remove_fenced ''```'' t)) @ ''...''))"
    by (simp add: product_try_def Let_def)
  with assms(1)
  have "generateProductImage env rec = Inl (Error ''Failed to visualize the recommended item.'')"
    by (simp add: generateProductImage_def)
  with t p show ?thesis by blast
qed

theorem product_image_text_only_witness:
  "generateProductImage
     (example_env unavailable unavailable unavailable unavailable
        (respond None [text_part ''I cannot draw that.''])) scarf
   = Inl (Error ''Failed to visualize the recommended item.'')
   \<and> product_try
       (example_client unavailable unavailable unavailable unavailable
          (respond None [text_part ''I cannot draw that.''])) scarf
     = Inl (Error ''Model returned text: I cannot draw that....'')"
proof -
  let ?ai = "example_client unavailable unavailable unavailable unavailable
                (respond None [text_part ''I cannot draw that.''])"
  let ?r = "\<lparr>candidates = Some [\<lparr>content = Some \<lparr>parts = Some [text_part ''I cannot draw that.'']\<rparr>\<rparr>],
            response_text = None\<rparr>"
  have a: "generateContent ?ai (ProductImageRequest scarf) = Inr ?r"
    by (simp add: example_client_def respond_def)
  have b: "list_all (\<lambda>p. inlineData p = None) (response_parts ?r)"
    by (simp add: response_parts_def text_part_def)
  have c: "list_ex (\<lambda>p. truthy (part_text p)) (response_parts ?r)"
    by (simp add: response_parts_def text_part_def)
  from product_image_text_only [OF example_env_client a b c] show ?thesis
    by (simp add: response_parts_def text_part_def trim_def is_space_def)
qed

text \<open>
  The claim as it is written fails: the backend answers the product request with the
  text \<^verbatim>\<open>I cannot draw that.\<close> and no image, and the message of the error raised is the
  fixed one. \<open>generateTryOn\<close>, on the same response, does put the text in its message.
\<close>

theorem product_image_generic_counterexample:
  "generateProductImage
     (example_env unavailable unavailable unavailable unavailable
        (respond None [text_part ''I cannot draw that.''])) scarf
   = Inl (Error ''Failed to visualize the recommended item.'')
   \<and> generateTryOn
       (example_env unavailable (respond None [text_part ''I cannot draw that.''])
          unavailable unavailable unavailable)
       ''data:image/png;base64,AAAA'' ''data:image/jpeg;base64,BBBB'' [] Pose_original
     = Inl (Error (''The model could not generate the image. Message: ''
                   @ [CHR 0x22] @ ''I cannot draw that....'' @ [CHR 0x22]))"
  by (simp add: generateProductImage_def product_try_def generateTryOn_def tryOn_response_def
                tryOn_catch_def parse_person_photo parse_garment_photo example_env_def example_client_def
                respond_def text_part_def response_parts_def trim_def is_space_def Let_def)

lemma tryOn_scan_last:
  "tryOn_scan ps acc =
     (if inline_images ps = [] then acc
      else Some (''data:image/png;base64,'' @ data (last (inline_images ps))))"
proof (induction ps arbitrary: acc)
  case Nil
  then show ?case by (simp add: inline_images_def List.map_filter_simps)
next
  case (Cons p ps)
  show ?case
  proof (cases "inlineData p")
    case None
    with Cons show ?thesis by (simp add: inline_images_def List.map_filter_simps)
  next
    case (Some d)
    with Cons show ?thesis by (simp add: inline_images_def List.map_filter_simps)
  qed
qed

text \<open>
  Claim C10. When the response to the try-on request (made on the client \<open>ai\<close> that the
  constructor returned, with the parsed images) has at least one part with inline data,
  \<open>generateTryOn\<close> returns the URL made of the prefix \<^verbatim>\<open>data:image/png;base64,\<close> and
  the data of the last such part; the MIME type that the part declares is not read.
\<close>

theorem tryOn_returns_last_image:
  assumes "GoogleGenAI env = Inr ai" and "parseBase64 u = Inr ui" and "parseBase64 c = Inr ci"
    and "generateContent ai (TryOnRequest ui ci instr pose) = Inr response"
    and "inline_images (response_parts response) \<noteq> []"
  shows "generateTryOn env u c instr pose
         = Inr \<lparr>tryOn_imageUrl = ''data:image/png;base64,''
                                  @ data (last (inline_images (response_parts response)))\<rparr>"
  using assms
  by (simp add: generateTryOn_def tryOn_response_def tryOn_scan_last Let_def)

theorem tryOn_returns_last_image_witness:
  "inline_images
     [text_part ''Here you are'', image_part ''image/jpeg'' ''XXXX'', image_part ''image/webp'' ''YYYY'']
   = [\<lparr>mimeType = ''image/jpeg'', data = ''XXXX''\<rparr>, \<lparr>mimeType = ''image/webp'', data = ''YYYY''\<rparr>]
   \<and> generateTryOn
       (example_env unavailable
          (respond None [text_part ''Here you are'', image_part ''image/jpeg'' ''XXXX'',
                         image_part ''image/webp'' ''YYYY''])
          unavailable unavailable unavailable)
       ''data:image/png;base64,AAAA'' ''data:image/jpeg;base64,BBBB'' ''tuck in the shirt''
       (Pose_degrees 90)
     = Inr \<lparr>tryOn_imageUrl = ''data:image/png;base64,YYYY''\<rparr>"
proof -
  let ?ps = "[text_part ''Here you are'', image_part ''image/jpeg'' ''XXXX'',
              image_part ''image/webp'' ''YYYY'']"
  let ?env = "example_env unavailable (respond None ?ps) unavailable unavailable unavailable"
  let ?ai = "example_client unavailable (respond None ?ps) unavailable unavailable unavailable"
  let ?r = "\<lparr>candidates = Some [\<lparr>content = Some \<lparr>parts = Some ?ps\<rparr>\<rparr>], response_text = None\<rparr>"
  have i: "inline_images ?ps
           = [\<lparr>mimeType = ''image/jpeg'', data = ''XXXX''\<rparr>, \<lparr>mimeType = ''image/webp'', data = ''YYYY''\<rparr>]"
    by (simp add: inline_images_def List.map_filter_simps text_part_def image_part_def)
  have ps: "response_parts ?r = ?ps"
    by (simp add: response_parts_def)
  have a: "generateContent ?ai
             (TryOnRequest \<lparr>mimeType = ''image/png'', data = ''AAAA''\<rparr>
                \<lparr>mimeType = ''image/jpeg'', data = ''BBBB''\<rparr> ''tuck in the shirt'' (Pose_degrees 90))
           = Inr ?r"
    by (simp add: example_client_def respond_def)
  have n: "inline_images (response_parts ?r) \<noteq> []"
    by (simp only: ps i) simp
  from tryOn_returns_last_image [OF example_env_client parse_person_photo parse_garment_photo a n]
  have "generateTryOn ?env ''data:image/png;base64,AAAA'' ''data:image/jpeg;base64,BBBB''
          ''tuck in the shirt'' (Pose_degrees 90)
        = Inr \<lparr>tryOn_imageUrl = ''data:image/png;base64,''
                                 @ data (last (inline_images (response_parts ?r)))\<rparr>" .
  then have "generateTryOn ?env ''data:image/png;base64,AAAA'' ''data:image/jpeg;base64,BBBB''
          ''tuck in the shirt'' (Pose_degrees 90)
        = Inr \<lparr>tryOn_imageUrl = ''data:image/png;base64,YYYY''\<rparr>"
    by (simp only: ps i) simp
  with i show ?thesis by blast
qed

subsection \<open>The pose of a generation request\<close>

lemma handleTryOn_rotation: "rotation (fst (handleTryOn env s)) = rotation s"
  by (simp add: handleTryOn_def handleTryOn_catch_def Let_def
           split: option.splits sum.splits prod.splits)

lemma handleApplyRecommendation_rotation:
  "rotation (fst (handleApplyRecommendation env r s)) = rotation s"
  by (simp add: handleApplyRecommendation_def Let_def split: sum.splits)

lemma handleClothingUpload_rotation: "rotation (handleClothingUpload f s) = rotation s"
  by (simp add: handleClothingUpload_def split: option.splits)

lemma range_value_bounds: "lo \<le> hi \<Longrightarrow> lo \<le> range_value lo hi v \<and> range_value lo hi v \<le> hi"
  by (simp add: range_value_def)

lemma dispatch_rotation:
  assumes "0 \<le> rotation s \<and> rotation s \<le> 360"
  shows "0 \<le> rotation (fst (dispatch env ev s)) \<and> rotation (fst (dispatch env ev s)) \<le> 360"
proof (cases ev)
  case (RotationInput v)
  have "(0::int) \<le> 360" by simp
  from range_value_bounds [OF this, of v] assms RotationInput show ?thesis by simp
next
  case TryOn
  with assms show ?thesis by (simp add: handleTryOn_rotation)
next
  case (ApplyRecommendation r)
  with assms show ?thesis by (simp add: handleApplyRecommendation_rotation)
next
  case (ClothingUpload f)
  with assms show ?thesis by (simp add: handleClothingUpload_rotation)
qed (use assms in \<open>simp_all add: handle3DSnapshot_def clearClothing_def handleReset_def\<close>)

lemma handleTryOn_pose:
  "Call_generateTryOn u c i p \<in> set (snd (handleTryOn env s)) \<Longrightarrow> p = current_pose s"
  by (auto simp: handleTryOn_def Let_def split: option.splits sum.splits if_splits prod.splits)

lemma dispatch_pose:
  "Call_generateTryOn u c i p \<in> set (snd (dispatch env ev s)) \<Longrightarrow> p = current_pose s"
proof (cases ev)
  case TryOn
  assume "Call_generateTryOn u c i p \<in> set (snd (dispatch env ev s))"
  with TryOn have "Call_generateTryOn u c i p \<in> set (snd (handleTryOn env s))"
    by (simp split: if_splits)
  then show ?thesis by (rule handleTryOn_pose)
next
  case (ApplyRecommendation r)
  assume "Call_generateTryOn u c i p \<in> set (snd (dispatch env ev s))"
  with ApplyRecommendation show ?thesis
    by (simp add: handleApplyRecommendation_def Let_def split: sum.splits)
qed (simp_all split: if_splits)

lemma current_pose_range:
  "0 \<le> rotation s \<and> rotation s \<le> 360 \<Longrightarrow>
     current_pose s = Pose_original \<or> (\<exists>n. current_pose s = Pose_degrees n \<and> 0 \<le> n \<and> n \<le> 360)"
  by (simp add: current_pose_def)

lemma run_pose:
  "0 \<le> rotation s \<and> rotation s \<le> 360 \<Longrightarrow>
   Call_generateTryOn u c i p \<in> set (snd (run env evs s)) \<Longrightarrow>
   p = Pose_original \<or> (\<exists>n. p = Pose_degrees n \<and> 0 \<le> n \<and> n \<le> 360)"
proof (induction evs arbitrary: s)
  case Nil
  then show ?case by simp
next
  case (Cons ev evs)
  obtain s' calls where d: "dispatch env ev s = (s', calls)" by (cases "dispatch env ev s")
  obtain s'' calls' where r: "run env evs s' = (s'', calls')" by (cases "run env evs s'")
  from Cons.prems(2) d r
  have "Call_generateTryOn u c i p \<in> set calls \<or> Call_generateTryOn u c i p \<in> set calls'"
    by simp
  then show ?case
  proof
    assume "Call_generateTryOn u c i p \<in> set calls"
    with d have "Call_generateTryOn u c i p \<in> set (snd (dispatch env ev s))" by simp
    then have "p = current_pose s" by (rule dispatch_pose)
    with current_pose_range [OF Cons.prems(1)] show ?thesis by simp
  next
    assume "Call_generateTryOn u c i p \<in> set calls'"
    with r have m: "Call_generateTryOn u c i p \<in> set (snd (run env evs s'))" by simp
    from dispatch_rotation [OF Cons.prems(1), of env ev] d
    have "0 \<le> rotation s' \<and> rotation s' \<le> 360" by simp
    from Cons.IH [OF this m] show ?thesis .
  qed
qed

lemma garment_is_no_model: "\<not> is_3d_model_name ''coat.jpg''"
  by (simp add: is_3d_model_name_def lower_def)

text \<open>
  Claim C9, as the code has it. In every session from the initial state, the pose of
  every call of \<open>generateTryOn\<close> is the sentinel or an angle \<open>n\<close> with \<open>0 \<le> n \<le> 360\<close>, both
  ends included; and the pose of the call is the one computed from the state in which
  \<open>handleTryOn\<close> was started.
\<close>

theorem pose_of_generation_request:
  "(Call_generateTryOn u c i p \<in> set (snd (run env evs initial))
      \<longrightarrow> p = Pose_original \<or> (\<exists>n. p = Pose_degrees n \<and> 0 \<le> n \<and> n \<le> 360))
   \<and> (Call_generateTryOn u c i p \<in> set (snd (handleTryOn env s)) \<longrightarrow> p = current_pose s)"
proof (intro conjI impI)
  have "0 \<le> rotation initial \<and> rotation initial \<le> 360"
    by (simp add: initial_def)
  moreover assume "Call_generateTryOn u c i p \<in> set (snd (run env evs initial))"
  ultimately show "p = Pose_original \<or> (\<exists>n. p = Pose_degrees n \<and> 0 \<le> n \<and> n \<le> 360)"
    by (rule run_pose)
next
  assume "Call_generateTryOn u c i p \<in> set (snd (handleTryOn env s))"
  then show "p = current_pose s" by (rule handleTryOn_pose)
qed

lemma all_well_safety:
  "validateClothingSafety all_well ''data:image/jpeg;base64,BBBB'' = Inr \<lparr>valid = True, reason = None\<rparr>"
  by (simp add: validateClothingSafety_def parse_garment_photo all_well_def example_env_def example_client_def
                respond_def json_valid_true_def)

lemma all_well_fan_out:
  "generateTryOn all_well ''data:image/png;base64,AAAA'' ''data:image/jpeg;base64,BBBB'' i p
   = Inr \<lparr>tryOn_imageUrl = ''data:image/png;base64,CCCC''\<rparr>"
  "generateStyleRecommendations all_well ''data:image/jpeg;base64,BBBB'' = Inr []"
  "generateStylistReview all_well ''data:image/png;base64,AAAA'' ''data:image/jpeg;base64,BBBB''
   = Inr ''Lovely.''"
  by (simp_all add: generateTryOn_def generateStyleRecommendations_def generateStylistReview_def
                    tryOn_response_def response_parts_def parse_person_photo parse_garment_photo
                    all_well_def example_env_def example_client_def respond_def image_part_def)

lemma full_turn_calls:
  "snd (run all_well full_turn_session initial)
   = [Call_validateClothingSafety ''data:image/jpeg;base64,BBBB'',
      Call_generateTryOn ''data:image/png;base64,AAAA'' ''data:image/jpeg;base64,BBBB'' []
        (Pose_degrees 360),
      Call_generateStyleRecommendations ''data:image/jpeg;base64,BBBB'',
      Call_generateStylistReview ''data:image/png;base64,AAAA'' ''data:image/jpeg;base64,BBBB'']"
  by (simp add: full_turn_session_def initial_def handleClothingUpload_def garment_is_no_model
                range_value_def handleTryOn_def current_pose_def Promise_all3_def
                all_well_safety all_well_fan_out person_photo_def garment_photo_def)

lemma ready_calls:
  "snd (handleTryOn all_well ready)
   = [Call_validateClothingSafety ''data:image/jpeg;base64,BBBB'',
      Call_generateTryOn ''data:image/png;base64,AAAA'' ''data:image/jpeg;base64,BBBB'' []
        Pose_original,
      Call_generateStyleRecommendations ''data:image/jpeg;base64,BBBB'',
      Call_generateStylistReview ''data:image/png;base64,AAAA'' ''data:image/jpeg;base64,BBBB'']"
  by (simp add: ready_def initial_def handleTryOn_def current_pose_def Promise_all3_def
                all_well_safety all_well_fan_out person_photo_def garment_photo_def)

theorem pose_of_generation_request_witness:
  "Call_generateTryOn ''data:image/png;base64,AAAA'' ''data:image/jpeg;base64,BBBB'' []
     (Pose_degrees 360) \<in> set (snd (run all_well full_turn_session initial))
   \<and> (Pose_degrees 360 = Pose_original
       \<or> (\<exists>n. Pose_degrees 360 = Pose_degrees n \<and> 0 \<le> n \<and> n \<le> 360))
   \<and> Call_generateTryOn ''data:image/png;base64,AAAA'' ''data:image/jpeg;base64,BBBB'' []
       Pose_original \<in> set (snd (handleTryOn all_well ready))
   \<and> Pose_original = current_pose ready"
proof -
  have a: "Call_generateTryOn ''data:image/png;base64,AAAA'' ''data:image/jpeg;base64,BBBB'' []
             (Pose_degrees 360) \<in> set (snd (run all_well full_turn_session initial))"
    by (simp add: full_turn_calls)
  have b: "Call_generateTryOn ''data:image/png;base64,AAAA'' ''data:image/jpeg;base64,BBBB'' []
             Pose_original \<in> set (snd (handleTryOn all_well ready))"
    by (simp add: ready_calls)
  from a pose_of_generation_request
         [of "''data:image/png;base64,AAAA''" "''data:image/jpeg;base64,BBBB''" "[]"
             "Pose_degrees 360" all_well full_turn_session]
  have 1: "Pose_degrees 360 = Pose_original
           \<or> (\<exists>n. Pose_degrees 360 = Pose_degrees n \<and> 0 \<le> n \<and> n \<le> 360)"
    by blast
  from b pose_of_generation_request
         [of "''data:image/png;base64,AAAA''" "''data:image/jpeg;base64,BBBB''" "[]"
             Pose_original all_well "[]" ready]
  have 2: "Pose_original = current_pose ready"
    by blast
  from a b 1 2 show ?thesis by blast
qed

text \<open>
  The claim as it is written fails at the right end of the slider: the range input
  admits 360, and the session above passes the pose 360, which is not below 360.
\<close>

theorem pose_full_turn_counterexample:
  "Call_generateTryOn (base64 person_photo) (base64 garment_photo) [] (Pose_degrees 360)
     \<in> set (snd (run all_well full_turn_session initial))
   \<and> \<not> ((360::int) < 360)"
  by (simp add: full_turn_calls photo_base64)

end
